theory Spec2Isabelle
  imports Main "HOL-Library.Word"
begin

section \<open>The vmnet adapter of tinc (src/bsd/vmnet.c)\<close>

text \<open>
  The adapter keeps its state in file-scope statics and talks to three collaborators:
  the vmnet framework, the operating system (sockets, heap, dispatch objects) and the
  logger. The model passes one record through every operation. Its first six fields
  are the statics of vmnet.c; the other fields record what the collaborators have
  seen: which descriptors, heap blocks and dispatch objects are live, the sequence of
  framework calls, the sequence of \<open>writev\<close> calls, and the log.

  What a collaborator answers is not decided by the adapter. Each operation therefore
  takes a record of answers (its "environment"): the descriptors \<open>socketpair\<close>
  hands out, the status a completion handler receives, and so on. An answer is read
  only on the path where the source makes the corresponding call.

  Every operation is modelled as one atomic step; interleavings of the dispatch queue
  with the consumer's thread are outside the model.
\<close>

subsection \<open>Types of the framework and of the operating system\<close>

text \<open>
  \<open>vmnet_return_t\<close> is the framework's enumeration. The adapter only compares its
  values with the named constants and switches on them, so the constants are the
  constructors; \<open>VMNET_OTHER\<close> stands for any code outside the list (the
  \<open>default\<close> branch of \<open>str_vmnet_status\<close>).
\<close>

datatype vmnet_return_t =
    VMNET_SUCCESS
  | VMNET_FAILURE
  | VMNET_MEM_FAILURE
  | VMNET_INVALID_ARGUMENT
  | VMNET_SETUP_INCOMPLETE
  | VMNET_INVALID_ACCESS
  | VMNET_PACKET_TOO_BIG
  | VMNET_BUFFER_EXHAUSTED
  | VMNET_TOO_MANY_PACKETS
  | VMNET_SHARING_SERVICE_BUSY
  | VMNET_OTHER int

text \<open>
  Pointers and opaque references are addresses; \<open>None\<close> is \<open>NULL\<close>.
  \<open>size_t\<close> and \<open>ssize_t\<close> are 64 bits wide on Darwin, \<open>int\<close> and
  \<open>uint32_t\<close> 32 bits. A \<open>ssize_t\<close> is kept as its 64-bit pattern: \<open>-1\<close> is
  the word of all ones, and \<open>sint\<close> reads the signed value.
\<close>

type_synonym ptr = "nat option"
type_synonym interface_ref = "nat option"
type_synonym dispatch_queue_t = "nat option"
type_synonym size_t = "64 word"
type_synonym ssize_t = "64 word"
type_synonym c_int = "32 word"
type_synonym fd = int

record iovec =
  iov_base :: ptr
  iov_len :: size_t

text \<open>
  \<open>struct vmpktdesc\<close>; \<open>vm_pkt_iov\<close> is a pointer to an \<open>iovec\<close> in the source, the
  model holds the \<open>iovec\<close> it points to at the time of the call.
\<close>

record vmpktdesc =
  vm_pkt_size :: size_t
  vm_pkt_iov :: iovec
  vm_pkt_iovcnt :: "32 word"
  vm_flags :: "32 word"

datatype operating_modes_t = VMNET_HOST_MODE | VMNET_SHARED_MODE | VMNET_BRIDGED_MODE

datatype xpc_value = Xpc_uint64_mode operating_modes_t | Xpc_bool bool | Xpc_string string

type_synonym xpc_dictionary = "(string \<times> xpc_value) list"

text \<open>The calls the adapter makes into the framework, with their arguments.\<close>

datatype fw_call =
    Vmnet_start_interface xpc_dictionary dispatch_queue_t
  | Vmnet_interface_set_event_callback interface_ref dispatch_queue_t bool
  | Vmnet_stop_interface interface_ref dispatch_queue_t
  | Vmnet_read interface_ref vmpktdesc c_int
  | Vmnet_write interface_ref vmpktdesc c_int

datatype log_arg = Arg_strerror_errno | Arg_str string | Arg_size size_t

subsection \<open>The state\<close>

record vmnet =
  if_status :: vmnet_return_t
  if_queue :: dispatch_queue_t
  vmnet_if :: interface_ref
  max_packet_size :: size_t
  read_iov_in :: iovec
  read_socket :: "fd \<times> fd"
  open_fds :: "fd set"
  dispatch_objs :: "nat set"
  xpc_objs :: "nat set"
  heap :: "nat set"
  fw_calls :: "fw_call list"
  writev_calls :: "(fd \<times> iovec \<times> ssize_t) list"
  log :: "(string \<times> log_arg list) list"

text \<open>
  The statics as the loader initialises them (lines 30 to 35): \<open>if_status\<close> has an
  initialiser, everything else is zeroed. Nothing is allocated and no call has been
  made.
\<close>

definition init :: vmnet where
  "init = \<lparr> if_status = VMNET_SETUP_INCOMPLETE, if_queue = None, vmnet_if = None,
             max_packet_size = 0, read_iov_in = \<lparr> iov_base = None, iov_len = 0 \<rparr>,
             read_socket = (0, 0),
             open_fds = {}, dispatch_objs = {}, xpc_objs = {}, heap = {},
             fw_calls = [], writev_calls = [], log = [] \<rparr>"

subsection \<open>Collaborators\<close>

definition logger :: "string \<Rightarrow> log_arg list \<Rightarrow> vmnet \<Rightarrow> vmnet" where
  "logger fmt args s = s\<lparr> log := log s @ [(fmt, args)] \<rparr>"

definition fw :: "fw_call \<Rightarrow> vmnet \<Rightarrow> vmnet" where
  "fw c s = s\<lparr> fw_calls := fw_calls s @ [c] \<rparr>"

definition dispatch_create :: "nat \<Rightarrow> vmnet \<Rightarrow> vmnet" where
  "dispatch_create obj s = s\<lparr> dispatch_objs := insert obj (dispatch_objs s) \<rparr>"

definition dispatch_release :: "nat option \<Rightarrow> vmnet \<Rightarrow> vmnet" where
  "dispatch_release obj s =
     (case obj of None \<Rightarrow> s | Some q \<Rightarrow> s\<lparr> dispatch_objs := dispatch_objs s - {q} \<rparr>)"

definition xpc_create :: "nat \<Rightarrow> vmnet \<Rightarrow> vmnet" where
  "xpc_create obj s = s\<lparr> xpc_objs := insert obj (xpc_objs s) \<rparr>"

definition xpc_release :: "nat \<Rightarrow> vmnet \<Rightarrow> vmnet" where
  "xpc_release obj s = s\<lparr> xpc_objs := xpc_objs s - {obj} \<rparr>"

text \<open>\<open>malloc\<close> may answer \<open>NULL\<close>; \<open>free (NULL)\<close> does nothing.\<close>

definition malloc :: "ptr \<Rightarrow> vmnet \<Rightarrow> vmnet" where
  "malloc p s = (case p of None \<Rightarrow> s | Some b \<Rightarrow> s\<lparr> heap := insert b (heap s) \<rparr>)"

definition free :: "ptr \<Rightarrow> vmnet \<Rightarrow> vmnet" where
  "free p s = (case p of None \<Rightarrow> s | Some b \<Rightarrow> s\<lparr> heap := heap s - {b} \<rparr>)"

definition close_fd :: "fd \<Rightarrow> vmnet \<Rightarrow> vmnet" where
  "close_fd d s = s\<lparr> open_fds := open_fds s - {d} \<rparr>"

definition writev :: "fd \<Rightarrow> iovec \<Rightarrow> ssize_t \<Rightarrow> vmnet \<Rightarrow> vmnet" where
  "writev d iov res s = s\<lparr> writev_calls := writev_calls s @ [(d, iov, res)] \<rparr>"

subsection \<open>Status translation (lines 179 to 204)\<close>

fun str_vmnet_status :: "vmnet_return_t \<Rightarrow> string" where
  "str_vmnet_status VMNET_SUCCESS = ''success''"
| "str_vmnet_status VMNET_FAILURE = ''general failure (possibly not enough privileges)''"
| "str_vmnet_status VMNET_MEM_FAILURE = ''memory allocation failure''"
| "str_vmnet_status VMNET_INVALID_ARGUMENT = ''invalid argument specified''"
| "str_vmnet_status VMNET_SETUP_INCOMPLETE = ''interface setup is not complete''"
| "str_vmnet_status VMNET_INVALID_ACCESS = ''invalid access, permission denied''"
| "str_vmnet_status VMNET_PACKET_TOO_BIG = ''packet size is larger than MTU''"
| "str_vmnet_status VMNET_BUFFER_EXHAUSTED = ''buffers exhausted in kernel''"
| "str_vmnet_status VMNET_TOO_MANY_PACKETS = ''packet count exceeds limit''"
| "str_vmnet_status VMNET_SHARING_SERVICE_BUSY = ''conflict, sharing service is in use''"
| "str_vmnet_status (VMNET_OTHER c) = ''unknown vmnet error''"

subsection \<open>open (lines 40 to 83)\<close>

text \<open>
  The answers \<open>macos_vmnet_open\<close> can receive: the two descriptors of \<open>socketpair\<close>
  (\<open>None\<close> when it fails), the objects created for the configuration dictionary, the
  queue and the semaphore, the reference \<open>vmnet_start_interface\<close> returns, what its
  completion handler is called with (\<open>None\<close> when the framework never calls it, so
  that the wait on the semaphore does not end), and the block \<open>malloc\<close> returns.
  The handler's second argument is \<open>None\<close> for a null \<open>interface_param\<close> and
  otherwise the value found under \<open>vmnet_max_packet_size_key\<close>.
\<close>

record open_env =
  socketpair_res :: "(fd \<times> fd) option"
  if_desc_res :: nat
  queue_res :: nat
  started_sem_res :: nat
  start_handle :: interface_ref
  start_completion :: "(vmnet_return_t \<times> size_t option) option"
  malloc_res :: ptr

definition if_desc :: xpc_dictionary where
  "if_desc =
     [(''vmnet_operation_mode_key'', Xpc_uint64_mode VMNET_HOST_MODE),
      (''vmnet_enable_isolation_key'', Xpc_bool True),
      (''vmnet_allocate_mac_address_key'', Xpc_bool False),
      (''vmnet_start_address_key'', Xpc_string ''10.255.2.77''),
      (''vmnet_end_address_key'', Xpc_string ''10.255.2.255''),
      (''vmnet_subnet_mask_key'', Xpc_string ''255.255.255.0'')]"

text \<open>The completion handler of \<open>vmnet_start_interface\<close> (lines 56 to 62).\<close>

definition start_handler :: "vmnet_return_t \<Rightarrow> size_t option \<Rightarrow> vmnet \<Rightarrow> vmnet" where
  "start_handler status interface_param s =
     (let s1 = s\<lparr> if_status := status \<rparr>
      in case interface_param of
           None \<Rightarrow> s1
         | Some mps \<Rightarrow>
             if status = VMNET_SUCCESS then s1\<lparr> max_packet_size := mps \<rparr> else s1)"

definition macos_vmnet_open :: "open_env \<Rightarrow> vmnet \<Rightarrow> (int \<times> vmnet) option" where
  "macos_vmnet_open e s =
     (case socketpair_res e of
        None \<Rightarrow>
          Some (- 1, logger ''Unable to create socket: %s'' [Arg_strerror_errno] s)
      | Some (fd0, fd1) \<Rightarrow>
          let s1 = s\<lparr> read_socket := (fd0, fd1),
                      open_fds := insert fd0 (insert fd1 (open_fds s)) \<rparr>;
              s2 = xpc_create (if_desc_res e) s1;
              s3 = dispatch_create (queue_res e) (s2\<lparr> if_queue := Some (queue_res e) \<rparr>);
              s4 = dispatch_create (started_sem_res e) s3;
              s5 = fw (Vmnet_start_interface if_desc (if_queue s4)) s4
          in (case start_completion e of
               None \<Rightarrow> None
             | Some (status, interface_param) \<Rightarrow>
                 let s6 = (start_handler status interface_param s5)
                            \<lparr> vmnet_if := start_handle e \<rparr>;
                     s7 = dispatch_release (Some (started_sem_res e)) s6;
                     s8 = xpc_release (if_desc_res e) s7
                 in if if_status s8 \<noteq> VMNET_SUCCESS then
                      Some (- 1, logger ''Unable to create vmnet device: %s''
                                   [Arg_str (str_vmnet_status (if_status s8))] s8)
                    else
                      let s9 = malloc (malloc_res e)
                                 (s8\<lparr> read_iov_in := \<lparr> iov_base = malloc_res e,
                                                        iov_len = max_packet_size s8 \<rparr> \<rparr>);
                          s10 = fw (Vmnet_interface_set_event_callback
                                      (vmnet_if s9) (if_queue s9) True) s9
                      in Some (fst (read_socket s10), s10)))"

subsection \<open>close (lines 85 to 117)\<close>

record close_env =
  stopped_sem_res :: nat
  stop_completion :: "vmnet_return_t option"

definition macos_vmnet_close :: "close_env \<Rightarrow> fd \<Rightarrow> vmnet \<Rightarrow> (int \<times> vmnet) option" where
  "macos_vmnet_close e d s =
     (if vmnet_if s = None \<or> d \<noteq> fst (read_socket s) then
        Some (- 1, logger ''Attempt to close broken vmnet device: %s'' [Arg_strerror_errno] s)
      else
        let s1 = fw (Vmnet_interface_set_event_callback (vmnet_if s) None False) s;
            s2 = dispatch_create (stopped_sem_res e) s1;
            s3 = fw (Vmnet_stop_interface (vmnet_if s2) (if_queue s2)) s2
        in case stop_completion e of
             None \<Rightarrow> None
           | Some status \<Rightarrow>
               let s4 = s3\<lparr> if_status := status \<rparr>;
                   s5 = dispatch_release (Some (stopped_sem_res e)) s4
               in if if_status s5 \<noteq> VMNET_SUCCESS then
                    Some (- 1, logger ''Unable to properly close vmnet device: %s''
                                 [Arg_strerror_errno] s5)
                  else
                    let s6 = dispatch_release (if_queue s5) s5;
                        s7 = s6\<lparr> read_iov_in := (read_iov_in s6)\<lparr> iov_len := 0 \<rparr> \<rparr>;
                        s8 = free (iov_base (read_iov_in s7)) s7;
                        s9 = s8\<lparr> read_iov_in := (read_iov_in s8)\<lparr> iov_base := None \<rparr> \<rparr>;
                        s10 = close_fd (fst (read_socket s9)) s9;
                        s11 = close_fd (snd (read_socket s10)) s10
                    in Some (0, s11))"

subsection \<open>The ingress event handler (lines 119 to 148)\<close>

text \<open>
  \<open>vmnet_read\<close> answers with a status, the packet count it leaves in \<open>count\<close>, and
  the fields of the descriptor it may rewrite; it fills the buffer the descriptor
  points to and leaves \<open>read_iov_in\<close> itself alone. \<open>writev_res\<close> is what \<open>writev\<close>
  returns.
\<close>

record read_env =
  read_status :: vmnet_return_t
  read_count :: c_int
  read_pkt_size :: size_t
  read_iovcnt :: "32 word"
  read_flags :: "32 word"
  writev_res :: ssize_t

definition macos_vmnet_read :: "read_env \<Rightarrow> vmnet \<Rightarrow> vmnet" where
  "macos_vmnet_read e s =
     (if if_status s \<noteq> VMNET_SUCCESS then s
      else
        let packet = \<lparr> vm_pkt_size = max_packet_size s, vm_pkt_iov = read_iov_in s,
                       vm_pkt_iovcnt = 1, vm_flags = 0 \<rparr>;
            s1 = fw (Vmnet_read (vmnet_if s) packet 1) s;
            packet' = packet\<lparr> vm_pkt_size := read_pkt_size e,
                              vm_pkt_iovcnt := read_iovcnt e, vm_flags := read_flags e \<rparr>;
            count = read_count e;
            s2 = s1\<lparr> if_status := read_status e \<rparr>
        in if if_status s2 \<noteq> VMNET_SUCCESS then
             logger ''Unable to read packet: %s'' [Arg_str (str_vmnet_status (if_status s2))] s2
           else if count \<noteq> 0 \<and> vm_pkt_iovcnt packet' \<noteq> 0 then
             let iov_out = \<lparr> iov_base = iov_base (vm_pkt_iov packet'),
                             iov_len = vm_pkt_size packet' \<rparr>;
                 s3 = writev (snd (read_socket s2)) iov_out (writev_res e) s2
             in if sint (writev_res e) < 0 then
                  logger ''Unable to write to read socket: %s'' [Arg_strerror_errno] s3
                else s3
           else s2)"

subsection \<open>write (lines 150 to 177)\<close>

text \<open>
  The status of \<open>vmnet_write\<close> goes to the local \<open>if_status\<close> declared on line 157,
  which hides the static of the same name; the model keeps it in \<open>write_status\<close> and
  never stores it in the state.
\<close>

record write_env =
  write_status :: vmnet_return_t
  write_pkt_cnt :: c_int

definition macos_vmnet_write :: "write_env \<Rightarrow> ptr \<Rightarrow> size_t \<Rightarrow> vmnet \<Rightarrow> ssize_t \<times> vmnet" where
  "macos_vmnet_write e buffer buflen s =
     (let iov = \<lparr> iov_base = buffer, iov_len = buflen \<rparr>
      in if buflen > max_packet_size s then
           (- 1, logger ''Max packet size (%zd) exceeded: %zd''
                    [Arg_size (max_packet_size s), Arg_size buflen] s)
         else
           let packet = \<lparr> vm_pkt_size = buflen, vm_pkt_iov = iov,
                          vm_pkt_iovcnt = 1, vm_flags = 0 \<rparr>;
               s1 = fw (Vmnet_write (vmnet_if s) packet 1) s;
               pkt_cnt = write_pkt_cnt e;
               local_if_status = write_status e
           in if local_if_status \<noteq> VMNET_SUCCESS then
                (- 1, logger ''Write failed'' [] s1)
              else
                (if pkt_cnt \<noteq> 0 then buflen else 0, s1))"

subsection \<open>Sequences of calls\<close>

text \<open>
  A history of the adapter is a list of calls, each with the answers of its
  collaborators. \<open>run\<close> is \<open>None\<close> when a call of the history does not return
  (\<open>open\<close> or \<open>close\<close> waiting for a completion that never comes).
\<close>

datatype op =
    Op_open open_env
  | Op_close close_env fd
  | Op_write write_env ptr size_t
  | Op_read read_env

fun step :: "op \<Rightarrow> vmnet \<Rightarrow> vmnet option" where
  "step (Op_open e) s = map_option snd (macos_vmnet_open e s)"
| "step (Op_close e d) s = map_option snd (macos_vmnet_close e d s)"
| "step (Op_write e buffer buflen) s = Some (snd (macos_vmnet_write e buffer buflen s))"
| "step (Op_read e) s = Some (macos_vmnet_read e s)"

fun run :: "op list \<Rightarrow> vmnet \<Rightarrow> vmnet option" where
  "run [] s = Some s"
| "run (x # xs) s = (case step x s of None \<Rightarrow> None | Some s' \<Rightarrow> run xs s')"

text \<open>
  Whether \<open>macos_vmnet_open\<close> reaches its last line depends on the answers alone:
  \<open>socketpair\<close> must succeed and the start completion must report success
  (lemmas \<open>open_succeeds_returns\<close> and \<open>open_fails_returns\<close> below).
\<close>

definition open_succeeds :: "open_env \<Rightarrow> bool" where
  "open_succeeds e =
     (case socketpair_res e of
        None \<Rightarrow> False
      | Some p \<Rightarrow> (case start_completion e of
                    None \<Rightarrow> False
                  | Some (status, interface_param) \<Rightarrow> status = VMNET_SUCCESS))"

fun successful_open :: "op \<Rightarrow> bool" where
  "successful_open (Op_open e) = open_succeeds e"
| "successful_open x = False"

text \<open>An \<open>open\<close> that got as far as line 56 and was handed a non-null reference.\<close>

fun handle_given :: "op \<Rightarrow> bool" where
  "handle_given (Op_open e) = (socketpair_res e \<noteq> None \<and> start_handle e \<noteq> None)"
| "handle_given x = False"

subsection \<open>Concrete answers and states used in the examples\<close>

definition ex_open_ok :: open_env where
  "ex_open_ok = \<lparr> socketpair_res = Some (3, 4), if_desc_res = 20, queue_res = 10,
                   started_sem_res = 11, start_handle = Some 1,
                   start_completion = Some (VMNET_SUCCESS, Some 1500),
                   malloc_res = Some 100 \<rparr>"

definition ex_open_fail :: open_env where
  "ex_open_fail = \<lparr> socketpair_res = Some (3, 4), if_desc_res = 20, queue_res = 10,
                     started_sem_res = 11, start_handle = None,
                     start_completion = Some (VMNET_FAILURE, None),
                     malloc_res = Some 100 \<rparr>"

definition ex_close_ok :: close_env where
  "ex_close_ok = \<lparr> stopped_sem_res = 12, stop_completion = Some VMNET_SUCCESS \<rparr>"

definition ex_close_fail :: close_env where
  "ex_close_fail = \<lparr> stopped_sem_res = 12, stop_completion = Some VMNET_FAILURE \<rparr>"

definition ex_write_ok :: write_env where
  "ex_write_ok = \<lparr> write_status = VMNET_SUCCESS, write_pkt_cnt = 1 \<rparr>"

definition ex_write_none :: write_env where
  "ex_write_none = \<lparr> write_status = VMNET_SUCCESS, write_pkt_cnt = 0 \<rparr>"

definition ex_write_fail :: write_env where
  "ex_write_fail = \<lparr> write_status = VMNET_FAILURE, write_pkt_cnt = 1 \<rparr>"

definition ex_read_frame :: read_env where
  "ex_read_frame = \<lparr> read_status = VMNET_SUCCESS, read_count = 1, read_pkt_size = 3,
                      read_iovcnt = 1, read_flags = 0, writev_res = 3 \<rparr>"

definition ex_read_empty :: read_env where
  "ex_read_empty = \<lparr> read_status = VMNET_SUCCESS, read_count = 0, read_pkt_size = 1500,
                      read_iovcnt = 1, read_flags = 0, writev_res = 0 \<rparr>"

definition ex_read_fail :: read_env where
  "ex_read_fail = \<lparr> read_status = VMNET_BUFFER_EXHAUSTED, read_count = 0,
                     read_pkt_size = 1500, read_iovcnt = 1, read_flags = 0, writev_res = 0 \<rparr>"

text \<open>The state after a successful \<open>open\<close>, and after a successful \<open>close\<close> of it.\<close>

definition ex_running :: vmnet where
  "ex_running = snd (the (macos_vmnet_open ex_open_ok init))"

definition ex_closed :: vmnet where
  "ex_closed = snd (the (macos_vmnet_close ex_close_ok 3 ex_running))"

text \<open>A history in which \<open>open\<close> was tried and failed.\<close>

definition ex_history :: "op list" where
  "ex_history = [Op_close ex_close_ok 0, Op_open ex_open_fail, Op_write ex_write_ok (Some 7) 64]"

definition ex_unopened :: vmnet where
  "ex_unopened = the (run ex_history init)"

text \<open>
  An \<open>open\<close> whose \<open>vmnet_start_interface\<close> returns the reference 1 while the
  completion reports a failure, and the state it leaves from the initial one.
\<close>

definition ex_open_refused :: open_env where
  "ex_open_refused = \<lparr> socketpair_res = Some (3, 4), if_desc_res = 20, queue_res = 10,
                        started_sem_res = 11, start_handle = Some 1,
                        start_completion = Some (VMNET_FAILURE, None),
                        malloc_res = Some 100 \<rparr>"

definition ex_refused :: vmnet where
  "ex_refused = snd (the (macos_vmnet_open ex_open_refused init))"

text \<open>What follows a successful \<open>close\<close> in the example: two more writes.\<close>

definition ex_after_close :: "op list" where
  "ex_after_close = [Op_write ex_write_ok (Some 7) 64, Op_write ex_write_fail (Some 7) 10]"

definition ex_later :: vmnet where
  "ex_later = the (run ex_after_close ex_closed)"

section \<open>Properties\<close>

subsection \<open>Auxiliary facts\<close>

lemmas prims = logger_def fw_def dispatch_create_def dispatch_release_def xpc_create_def
  xpc_release_def malloc_def free_def close_fd_def writev_def

lemma ex_running_eq:
  "ex_running = \<lparr> if_status = VMNET_SUCCESS, if_queue = Some 10, vmnet_if = Some 1,
      max_packet_size = 1500, read_iov_in = \<lparr> iov_base = Some 100, iov_len = 1500 \<rparr>,
      read_socket = (3, 4), open_fds = {3, 4}, dispatch_objs = {10}, xpc_objs = {},
      heap = {100},
      fw_calls = [Vmnet_start_interface if_desc (Some 10),
                  Vmnet_interface_set_event_callback (Some 1) (Some 10) True],
      writev_calls = [], log = [] \<rparr>"
  by (simp add: ex_running_def macos_vmnet_open_def ex_open_ok_def init_def start_handler_def
      Let_def prims)

lemma ex_closed_eq:
  "ex_closed = \<lparr> if_status = VMNET_SUCCESS, if_queue = Some 10, vmnet_if = Some 1,
      max_packet_size = 1500, read_iov_in = \<lparr> iov_base = None, iov_len = 0 \<rparr>,
      read_socket = (3, 4), open_fds = {}, dispatch_objs = {}, xpc_objs = {},
      heap = {},
      fw_calls = [Vmnet_start_interface if_desc (Some 10),
                  Vmnet_interface_set_event_callback (Some 1) (Some 10) True,
                  Vmnet_interface_set_event_callback (Some 1) None False,
                  Vmnet_stop_interface (Some 1) (Some 10)],
      writev_calls = [], log = [] \<rparr>"
  by (simp add: ex_closed_def ex_running_eq macos_vmnet_close_def ex_close_ok_def Let_def prims)

lemma ex_open_returns: "macos_vmnet_open ex_open_ok init = Some (3, ex_running)"
  by (simp add: ex_running_eq macos_vmnet_open_def ex_open_ok_def init_def start_handler_def
      Let_def prims)

lemma ex_close_returns: "macos_vmnet_close ex_close_ok 3 ex_running = Some (0, ex_closed)"
  by (simp add: ex_closed_eq ex_running_eq macos_vmnet_close_def ex_close_ok_def Let_def prims)

text \<open>\<open>open_succeeds\<close> is the path condition of line 82.\<close>

lemma open_succeeds_returns:
  "open_succeeds e \<Longrightarrow>
     \<exists>fd0 fd1 s'. socketpair_res e = Some (fd0, fd1) \<and> macos_vmnet_open e s = Some (fd0, s')"
  by (auto simp: open_succeeds_def macos_vmnet_open_def start_handler_def Let_def prims
      split: option.splits)

lemma open_fails_returns:
  "\<not> open_succeeds e \<Longrightarrow> macos_vmnet_open e s = Some (r, s') \<Longrightarrow> r = - 1"
  by (auto simp: open_succeeds_def macos_vmnet_open_def start_handler_def Let_def prims
      split: option.splits if_splits)

text \<open>What each operation does to the statics.\<close>

lemma write_statics:
  "if_status (snd (macos_vmnet_write e buffer buflen s)) = if_status s"
  "if_queue (snd (macos_vmnet_write e buffer buflen s)) = if_queue s"
  "vmnet_if (snd (macos_vmnet_write e buffer buflen s)) = vmnet_if s"
  "max_packet_size (snd (macos_vmnet_write e buffer buflen s)) = max_packet_size s"
  "read_iov_in (snd (macos_vmnet_write e buffer buflen s)) = read_iov_in s"
  "read_socket (snd (macos_vmnet_write e buffer buflen s)) = read_socket s"
  by (simp_all add: macos_vmnet_write_def Let_def logger_def fw_def)

lemma read_keeps:
  "max_packet_size (macos_vmnet_read e s) = max_packet_size s"
  "vmnet_if (macos_vmnet_read e s) = vmnet_if s"
  by (simp_all add: macos_vmnet_read_def Let_def prims)

lemma close_keeps:
  assumes "macos_vmnet_close e d s = Some (r, s')"
  shows "max_packet_size s' = max_packet_size s" and "vmnet_if s' = vmnet_if s"
  using assms
  by (auto simp: macos_vmnet_close_def Let_def prims split: if_splits option.splits)

lemma failed_open_keeps_size:
  assumes "macos_vmnet_open e s = Some (r, s')" and "\<not> open_succeeds e"
  shows "max_packet_size s' = max_packet_size s"
  using assms
  by (auto simp: macos_vmnet_open_def open_succeeds_def start_handler_def Let_def prims
      split: if_splits option.splits)

lemma open_handle:
  assumes "macos_vmnet_open e s = Some (r, s')"
  shows "vmnet_if s' = (if socketpair_res e = None then vmnet_if s else start_handle e)"
  using assms
  by (auto simp: macos_vmnet_open_def start_handler_def Let_def prims
      split: if_splits option.splits)

lemma step_keeps_size:
  "step x s = Some s' \<Longrightarrow> \<not> successful_open x \<Longrightarrow> max_packet_size s' = max_packet_size s"
  by (cases x) (auto simp: write_statics read_keeps dest: close_keeps failed_open_keeps_size)

lemma step_keeps_null:
  "step x s = Some s' \<Longrightarrow> \<not> handle_given x \<Longrightarrow> vmnet_if s = None \<Longrightarrow> vmnet_if s' = None"
  by (cases x) (auto simp: write_statics read_keeps dest: close_keeps open_handle)

lemma run_keeps_size:
  "run xs s = Some s' \<Longrightarrow> \<forall>x \<in> set xs. \<not> successful_open x \<Longrightarrow>
     max_packet_size s' = max_packet_size s"
proof (induction xs arbitrary: s)
  case Nil
  then show ?case by simp
next
  case (Cons x xs)
  from Cons.prems(1) obtain s1 where s1: "step x s = Some s1" and r: "run xs s1 = Some s'"
    by (auto split: option.splits)
  from s1 Cons.prems(2) have "max_packet_size s1 = max_packet_size s"
    by (simp add: step_keeps_size)
  moreover from r Cons.prems(2) have "max_packet_size s' = max_packet_size s1"
    by (simp add: Cons.IH)
  ultimately show ?case by simp
qed

lemma run_keeps_null:
  "run xs s = Some s' \<Longrightarrow> \<forall>x \<in> set xs. \<not> handle_given x \<Longrightarrow> vmnet_if s = None \<Longrightarrow>
     vmnet_if s' = None"
proof (induction xs arbitrary: s)
  case Nil
  then show ?case by simp
next
  case (Cons x xs)
  from Cons.prems(1) obtain s1 where s1: "step x s = Some s1" and r: "run xs s1 = Some s'"
    by (auto split: option.splits)
  from s1 Cons.prems(2,3) have "vmnet_if s1 = None"
    by (simp add: step_keeps_null)
  with r Cons.prems(2) show ?case
    by (simp add: Cons.IH)
qed

subsection \<open>Failure paths of close and open\<close>

text \<open>
  On the path of line 102 to 105 \<open>macos_vmnet_close\<close> returns before any of the
  releases of lines 107 to 114: whatever the state, a stop that completes with a
  status other than success leaves the queue, the read buffer and both descriptors as
  they were (only the semaphore of the call itself is released).
\<close>

lemma close_stop_failure_releases_nothing:
  assumes "vmnet_if s \<noteq> None" and "d = fst (read_socket s)"
      and "stop_completion e = Some status" and "status \<noteq> VMNET_SUCCESS"
  shows "\<exists>s'. macos_vmnet_close e d s = Some (- 1, s') \<and>
           open_fds s' = open_fds s \<and> heap s' = heap s \<and>
           dispatch_objs s' = dispatch_objs s - {stopped_sem_res e} \<and>
           if_queue s' = if_queue s \<and> read_iov_in s' = read_iov_in s \<and>
           read_socket s' = read_socket s"
  using assms by (auto simp: macos_vmnet_close_def Let_def prims)

text \<open>
  Claim C1: if the stop-interface operation completes with a non-success status during
  close, close returns an error and nevertheless releases the dispatch context, frees
  the read buffer and closes both ends of the socket pair.

  The code returns the error but releases nothing. Evaluated on the running example
  (descriptors 3 and 4, queue 10, buffer 100 of 1500 bytes) with a stop that completes
  with \<open>VMNET_FAILURE\<close>: the result is \<open>-1\<close>, both descriptors are still open, the
  buffer is still allocated and still referenced by \<open>read_iov_in\<close>, and the queue is
  still live.
\<close>

theorem close_stop_failure_leaks:
  "\<exists>s'. macos_vmnet_close ex_close_fail 3 ex_running = Some (- 1, s') \<and>
     open_fds s' = {3, 4} \<and> heap s' = {100} \<and> dispatch_objs s' = {10} \<and>
     if_queue s' = Some 10 \<and> read_iov_in s' = \<lparr> iov_base = Some 100, iov_len = 1500 \<rparr>"
  by (simp add: ex_running_eq macos_vmnet_close_def ex_close_fail_def Let_def prims)

text \<open>
  The two failure paths of \<open>macos_vmnet_open\<close>. When \<open>socketpair\<close> fails nothing
  has been allocated and only the log changes. When the start completion reports a
  failure, the function returns on line 70 with the descriptors of the socket pair
  open and the queue created on line 54 unreleased; the read buffer is not allocated.
\<close>

lemma open_socketpair_failure:
  "socketpair_res e = None \<Longrightarrow>
     \<exists>s'. macos_vmnet_open e s = Some (- 1, s') \<and> s'\<lparr> log := log s \<rparr> = s"
  by (simp add: macos_vmnet_open_def logger_def)

lemma open_start_failure_keeps_resources:
  assumes "socketpair_res e = Some (fd0, fd1)"
      and "start_completion e = Some (status, interface_param)"
      and "status \<noteq> VMNET_SUCCESS"
  shows "\<exists>s'. macos_vmnet_open e s = Some (- 1, s') \<and>
           open_fds s' = insert fd0 (insert fd1 (open_fds s)) \<and>
           dispatch_objs s' = insert (queue_res e) (dispatch_objs s) - {started_sem_res e} \<and>
           if_queue s' = Some (queue_res e) \<and>
           heap s' = heap s \<and> read_iov_in s' = read_iov_in s"
  using assms
  by (auto simp: macos_vmnet_open_def start_handler_def Let_def prims split: option.splits)

text \<open>
  Claim C2: whenever open fails, by a failed socket-pair creation or by a start
  completion with a non-success status, open returns an error, every resource
  allocated so far (the socket pair, the dispatch context) is freed before open
  returns, and the read buffer is not allocated.

  The code returns the error and does not allocate the buffer, but on the
  start-failure path it frees nothing. Evaluated from the initial state with a socket
  pair (3, 4), queue 10 and a start completion carrying \<open>VMNET_FAILURE\<close>: the result
  is \<open>-1\<close>, descriptors 3 and 4 are still open and queue 10 is still live.
\<close>

theorem open_start_failure_leaks:
  "\<exists>s'. macos_vmnet_open ex_open_fail init = Some (- 1, s') \<and>
     open_fds s' = {3, 4} \<and> dispatch_objs s' = {10} \<and> if_queue s' = Some 10 \<and>
     heap s' = {} \<and> read_iov_in s' = \<lparr> iov_base = None, iov_len = 0 \<rparr>"
  by (simp add: macos_vmnet_open_def ex_open_fail_def init_def start_handler_def
      Let_def prims)

subsection \<open>write\<close>

text \<open>
  Claim C3: after close has returned success, every subsequent call to write returns
  an error and performs no framework call.

  As stated this fails: \<open>macos_vmnet_write\<close> has no test of the adapter's
  lifecycle. It compares the length with \<open>max_packet_size\<close> only, and that value
  outlives the close. After open and a successful close in the example, a write of 64
  bytes does not return an error and a framework call is made.
\<close>

theorem write_after_close_counterexample:
  "macos_vmnet_open ex_open_ok init = Some (3, ex_running) \<and>
   macos_vmnet_close ex_close_ok 3 ex_running = Some (0, ex_closed) \<and>
   fst (macos_vmnet_write ex_write_ok (Some 7) 64 ex_closed) = 64 \<and>
   \<not> (fst (macos_vmnet_write ex_write_ok (Some 7) 64 ex_closed) = - 1 \<and>
      fw_calls (snd (macos_vmnet_write ex_write_ok (Some 7) 64 ex_closed)) =
        fw_calls ex_closed)"
  by (simp add: ex_closed_eq ex_running_eq macos_vmnet_open_def macos_vmnet_close_def
      macos_vmnet_write_def ex_open_ok_def ex_close_ok_def ex_write_ok_def init_def
      start_handler_def Let_def prims)

text \<open>
  Claim C3, amended: after close has returned success, and as long as no later open
  succeeds, \<open>max_packet_size\<close> keeps the value it had before the close, and every
  subsequent call to write with a length above that value returns an error and
  performs no framework call. Nothing is said about a write of a smaller length after
  close.
\<close>

theorem write_after_close:
  assumes "macos_vmnet_close ce d s = Some (0, s1)"
      and "run xs s1 = Some s2" and "\<forall>x \<in> set xs. \<not> successful_open x"
  shows "max_packet_size s2 = max_packet_size s \<and>
         (max_packet_size s < buflen \<longrightarrow>
            fst (macos_vmnet_write e buffer buflen s2) = - 1 \<and>
            fw_calls (snd (macos_vmnet_write e buffer buflen s2)) = fw_calls s2)"
proof -
  from assms(1) have k1: "max_packet_size s1 = max_packet_size s"
    by (rule close_keeps)
  from assms(2,3) have k2: "max_packet_size s2 = max_packet_size s1"
    by (rule run_keeps_size)
  have a: "max_packet_size s2 < buflen \<longrightarrow>
            fst (macos_vmnet_write e buffer buflen s2) = - 1 \<and>
            fw_calls (snd (macos_vmnet_write e buffer buflen s2)) = fw_calls s2"
    by (simp add: macos_vmnet_write_def logger_def)
  from k1 k2 a show ?thesis by simp
qed

lemma ex_later_run: "run ex_after_close ex_closed = Some ex_later"
  by (simp add: ex_later_def ex_after_close_def)

theorem write_after_close_witness:
  "macos_vmnet_close ex_close_ok 3 ex_running = Some (0, ex_closed) \<and>
   run ex_after_close ex_closed = Some ex_later \<and>
   max_packet_size ex_later = 1500 \<and>
   fst (macos_vmnet_write ex_write_ok (Some 7) 1501 ex_later) = - 1 \<and>
   fw_calls (snd (macos_vmnet_write ex_write_ok (Some 7) 1501 ex_later)) = fw_calls ex_later"
proof -
  have no_open: "\<forall>x \<in> set ex_after_close. \<not> successful_open x"
    by (simp add: ex_after_close_def)
  have run1: "max_packet_size ex_running = 1500"
    by (simp add: ex_running_eq)
  from write_after_close [OF ex_close_returns ex_later_run no_open,
      of 1501 ex_write_ok "Some 7"]
    run1 ex_close_returns ex_later_run
  show ?thesis by simp
qed

text \<open>
  Claim C4: every call write(bytes, len) with len greater than \<open>max_packet_size\<close>
  returns an error, and the framework's write-packet operation is not invoked: the
  sequence of framework calls is the same after the call as before.
\<close>

theorem write_oversize_rejected:
  "max_packet_size s < buflen \<Longrightarrow>
     fst (macos_vmnet_write e buffer buflen s) = - 1 \<and>
     fw_calls (snd (macos_vmnet_write e buffer buflen s)) = fw_calls s"
  by (simp add: macos_vmnet_write_def logger_def)

theorem write_oversize_rejected_witness:
  "max_packet_size ex_running < (1501 :: 64 word) \<and>
   fst (macos_vmnet_write ex_write_ok (Some 7) 1501 ex_running) = - 1 \<and>
   fw_calls (snd (macos_vmnet_write ex_write_ok (Some 7) 1501 ex_running)) =
     fw_calls ex_running"
proof -
  have h: "max_packet_size ex_running < (1501 :: 64 word)"
    by (simp add: ex_running_eq)
  from write_oversize_rejected [OF h, of ex_write_ok "Some 7"] h show ?thesis by simp
qed

text \<open>
  Claim C5: for every call write(bytes, length) with length at most
  \<open>max_packet_size\<close>: if the framework's write-packet operation returns success and
  leaves the packet count at 1, write returns length; if it returns success with the
  count at 0, write returns 0; if it returns a non-success status, write returns an
  error. In each case the framework is called once, with one descriptor of one
  buffer of that length. (The returned \<open>ssize_t\<close> has the 64 bits of the
  \<open>size_t\<close> length.)
\<close>

theorem write_result:
  "buflen \<le> max_packet_size s \<Longrightarrow>
     (write_status e = VMNET_SUCCESS \<and> write_pkt_cnt e = 1 \<longrightarrow>
        fst (macos_vmnet_write e buffer buflen s) = buflen) \<and>
     (write_status e = VMNET_SUCCESS \<and> write_pkt_cnt e = 0 \<longrightarrow>
        fst (macos_vmnet_write e buffer buflen s) = 0) \<and>
     (write_status e \<noteq> VMNET_SUCCESS \<longrightarrow>
        fst (macos_vmnet_write e buffer buflen s) = - 1) \<and>
     fw_calls (snd (macos_vmnet_write e buffer buflen s)) =
       fw_calls s @ [Vmnet_write (vmnet_if s)
          \<lparr> vm_pkt_size = buflen, vm_pkt_iov = \<lparr> iov_base = buffer, iov_len = buflen \<rparr>,
            vm_pkt_iovcnt = 1, vm_flags = 0 \<rparr> 1]"
  by (simp add: macos_vmnet_write_def Let_def logger_def fw_def leD)

theorem write_result_witness:
  "(64 :: 64 word) \<le> max_packet_size ex_running \<and>
   fst (macos_vmnet_write ex_write_ok (Some 7) 64 ex_running) = 64 \<and>
   fst (macos_vmnet_write ex_write_none (Some 7) 64 ex_running) = 0 \<and>
   fst (macos_vmnet_write ex_write_fail (Some 7) 64 ex_running) = - 1"
proof -
  have h: "(64 :: 64 word) \<le> max_packet_size ex_running"
    by (simp add: ex_running_eq)
  from write_result [OF h, of ex_write_ok "Some 7"]
    write_result [OF h, of ex_write_none "Some 7"]
    write_result [OF h, of ex_write_fail "Some 7"] h
  show ?thesis
    by (simp add: ex_write_ok_def ex_write_none_def ex_write_fail_def)
qed

text \<open>
  Claim C9: a failed egress write never modifies the shared interface status. The
  status of \<open>vmnet_write\<close> is kept in a local variable that hides the static, so the
  static \<open>if_status\<close> is the same after any write as before; in particular, when it
  was success, the ingress handler run after the write still calls \<open>vmnet_read\<close>.
\<close>

theorem write_keeps_if_status:
  "if_status (snd (macos_vmnet_write e buffer buflen s)) = if_status s \<and>
   (if_status s = VMNET_SUCCESS \<longrightarrow>
      fw_calls (macos_vmnet_read re (snd (macos_vmnet_write e buffer buflen s))) =
        fw_calls (snd (macos_vmnet_write e buffer buflen s)) @
          [Vmnet_read (vmnet_if s)
             \<lparr> vm_pkt_size = max_packet_size s, vm_pkt_iov = read_iov_in s,
               vm_pkt_iovcnt = 1, vm_flags = 0 \<rparr> 1])"
proof -
  have "if_status s = VMNET_SUCCESS \<longrightarrow>
          fw_calls (macos_vmnet_read re (snd (macos_vmnet_write e buffer buflen s))) =
            fw_calls (snd (macos_vmnet_write e buffer buflen s)) @
              [Vmnet_read (vmnet_if (snd (macos_vmnet_write e buffer buflen s)))
                 \<lparr> vm_pkt_size = max_packet_size (snd (macos_vmnet_write e buffer buflen s)),
                   vm_pkt_iov = read_iov_in (snd (macos_vmnet_write e buffer buflen s)),
                   vm_pkt_iovcnt = 1, vm_flags = 0 \<rparr> 1]"
    by (simp add: macos_vmnet_read_def Let_def prims write_statics)
  then show ?thesis by (simp add: write_statics)
qed

theorem write_keeps_if_status_witness:
  "fst (macos_vmnet_write ex_write_fail (Some 7) 64 ex_running) = - 1 \<and>
   if_status (snd (macos_vmnet_write ex_write_fail (Some 7) 64 ex_running)) = VMNET_SUCCESS \<and>
   fw_calls (macos_vmnet_read ex_read_frame
               (snd (macos_vmnet_write ex_write_fail (Some 7) 64 ex_running))) =
     fw_calls (snd (macos_vmnet_write ex_write_fail (Some 7) 64 ex_running)) @
       [Vmnet_read (Some 1)
          \<lparr> vm_pkt_size = 1500, vm_pkt_iov = \<lparr> iov_base = Some 100, iov_len = 1500 \<rparr>,
            vm_pkt_iovcnt = 1, vm_flags = 0 \<rparr> 1]"
proof -
  have r: "fst (macos_vmnet_write ex_write_fail (Some 7) 64 ex_running) = - 1"
    by (simp add: macos_vmnet_write_def ex_write_fail_def ex_running_eq Let_def)
  have st: "if_status ex_running = VMNET_SUCCESS" "vmnet_if ex_running = Some 1"
    "max_packet_size ex_running = 1500"
    "read_iov_in ex_running = \<lparr> iov_base = Some 100, iov_len = 1500 \<rparr>"
    by (simp_all add: ex_running_eq)
  from write_keeps_if_status [of ex_write_fail "Some 7" 64 ex_running ex_read_frame] r st
  show ?thesis by simp
qed

text \<open>
  Claim C10: before open has ever succeeded, \<open>max_packet_size\<close> is 0, so every
  write with a length above 0 returns an error at the size check without a framework
  call, while a write of length 0 passes the check and calls \<open>vmnet_write\<close> with a
  null interface reference.

  The last part fails as stated. Line 56 stores in \<open>vmnet_if\<close> whatever
  \<open>vmnet_start_interface\<close> returns, and the failure return of lines 68 to 71 leaves
  it there. From the initial state, an open whose start call returns the reference 1
  and whose completion reports \<open>VMNET_FAILURE\<close> returns \<open>-1\<close>; no open has
  succeeded, \<open>max_packet_size\<close> is still 0, and a write of length 0 calls
  \<open>vmnet_write\<close> with the reference 1.
\<close>

theorem write_before_open_counterexample:
  "macos_vmnet_open ex_open_refused init = Some (- 1, ex_refused) \<and>
   max_packet_size ex_refused = 0 \<and>
   fw_calls (snd (macos_vmnet_write ex_write_ok (Some 7) 0 ex_refused)) =
     fw_calls ex_refused @ [Vmnet_write (Some 1)
       \<lparr> vm_pkt_size = 0, vm_pkt_iov = \<lparr> iov_base = Some 7, iov_len = 0 \<rparr>,
         vm_pkt_iovcnt = 1, vm_flags = 0 \<rparr> 1] \<and>
   \<not> (fw_calls (snd (macos_vmnet_write ex_write_ok (Some 7) 0 ex_refused)) =
        fw_calls ex_refused @ [Vmnet_write None
          \<lparr> vm_pkt_size = 0, vm_pkt_iov = \<lparr> iov_base = Some 7, iov_len = 0 \<rparr>,
            vm_pkt_iovcnt = 1, vm_flags = 0 \<rparr> 1])"
  by (simp add: ex_refused_def macos_vmnet_open_def macos_vmnet_write_def ex_open_refused_def
      ex_write_ok_def init_def start_handler_def Let_def prims)

text \<open>
  Claim C10, amended: before open has ever succeeded, \<open>max_packet_size\<close> is 0, so
  every write with a length above 0 returns an error at the size check without a
  framework call, while a write of length 0 passes the check and calls
  \<open>vmnet_write\<close>; the interface reference it passes is null as long as no call of
  \<open>vmnet_start_interface\<close> has returned a non-null reference, in particular when
  open has never been called.

  "Before open has ever succeeded" is any state reached from the initial one by a
  history of calls none of which is a successful open.
\<close>

theorem write_before_open:
  assumes "run xs init = Some s" and "\<forall>x \<in> set xs. \<not> successful_open x"
  shows "max_packet_size s = 0 \<and>
         (0 < buflen \<longrightarrow>
            fst (macos_vmnet_write e buffer buflen s) = - 1 \<and>
            fw_calls (snd (macos_vmnet_write e buffer buflen s)) = fw_calls s) \<and>
         (\<exists>h. fw_calls (snd (macos_vmnet_write e buffer 0 s)) =
           fw_calls s @ [Vmnet_write h
             \<lparr> vm_pkt_size = 0, vm_pkt_iov = \<lparr> iov_base = buffer, iov_len = 0 \<rparr>,
               vm_pkt_iovcnt = 1, vm_flags = 0 \<rparr> 1]) \<and>
         ((\<forall>x \<in> set xs. \<not> handle_given x) \<longrightarrow>
            fw_calls (snd (macos_vmnet_write e buffer 0 s)) =
              fw_calls s @ [Vmnet_write None
                \<lparr> vm_pkt_size = 0, vm_pkt_iov = \<lparr> iov_base = buffer, iov_len = 0 \<rparr>,
                  vm_pkt_iovcnt = 1, vm_flags = 0 \<rparr> 1])"
proof -
  from assms have z: "max_packet_size s = 0"
    using run_keeps_size [of xs init s] by (simp add: init_def)
  have n: "(\<forall>x \<in> set xs. \<not> handle_given x) \<longrightarrow> vmnet_if s = None"
    using assms(1) run_keeps_null [of xs init s] by (simp add: init_def)
  have big: "0 < buflen \<longrightarrow>
            fst (macos_vmnet_write e buffer buflen s) = - 1 \<and>
            fw_calls (snd (macos_vmnet_write e buffer buflen s)) = fw_calls s"
    using z by (simp add: macos_vmnet_write_def logger_def word_greater_zero_iff)
  have zero: "fw_calls (snd (macos_vmnet_write e buffer 0 s)) =
           fw_calls s @ [Vmnet_write (vmnet_if s)
             \<lparr> vm_pkt_size = 0, vm_pkt_iov = \<lparr> iov_base = buffer, iov_len = 0 \<rparr>,
               vm_pkt_iovcnt = 1, vm_flags = 0 \<rparr> 1]"
    using z by (simp add: macos_vmnet_write_def Let_def logger_def fw_def)
  from zero have some: "\<exists>h. fw_calls (snd (macos_vmnet_write e buffer 0 s)) =
           fw_calls s @ [Vmnet_write h
             \<lparr> vm_pkt_size = 0, vm_pkt_iov = \<lparr> iov_base = buffer, iov_len = 0 \<rparr>,
               vm_pkt_iovcnt = 1, vm_flags = 0 \<rparr> 1]" ..
  from n zero have null: "(\<forall>x \<in> set xs. \<not> handle_given x) \<longrightarrow>
            fw_calls (snd (macos_vmnet_write e buffer 0 s)) =
              fw_calls s @ [Vmnet_write None
                \<lparr> vm_pkt_size = 0, vm_pkt_iov = \<lparr> iov_base = buffer, iov_len = 0 \<rparr>,
                  vm_pkt_iovcnt = 1, vm_flags = 0 \<rparr> 1]"
    by simp
  from z big some null show ?thesis by blast
qed

lemma ex_unopened_run: "run ex_history init = Some ex_unopened"
  by (simp add: ex_unopened_def ex_history_def macos_vmnet_close_def macos_vmnet_open_def
      ex_open_fail_def init_def start_handler_def Let_def prims)

theorem write_before_open_witness:
  "run ex_history init = Some ex_unopened \<and>
   max_packet_size ex_unopened = 0 \<and>
   fst (macos_vmnet_write ex_write_ok (Some 7) 5 ex_unopened) = - 1 \<and>
   fw_calls (snd (macos_vmnet_write ex_write_ok (Some 7) 5 ex_unopened)) =
     fw_calls ex_unopened \<and>
   fw_calls (snd (macos_vmnet_write ex_write_ok (Some 7) 0 ex_unopened)) =
     fw_calls ex_unopened @ [Vmnet_write None
       \<lparr> vm_pkt_size = 0, vm_pkt_iov = \<lparr> iov_base = Some 7, iov_len = 0 \<rparr>,
         vm_pkt_iovcnt = 1, vm_flags = 0 \<rparr> 1]"
proof -
  have h1: "\<forall>x \<in> set ex_history. \<not> successful_open x"
    by (simp add: ex_history_def open_succeeds_def ex_open_fail_def)
  have h2: "\<forall>x \<in> set ex_history. \<not> handle_given x"
    by (simp add: ex_history_def ex_open_fail_def)
  from write_before_open [OF ex_unopened_run h1, of 5 ex_write_ok "Some 7"] h2
    ex_unopened_run
  show ?thesis by simp
qed

subsection \<open>close\<close>

text \<open>
  Claim C6: every call close(fd) made while the interface reference is null, or with
  fd different from the external end of the socket pair, returns an error, performs
  no framework call (neither the deregistration of the event callback nor
  stop-interface), and leaves the adapter's state unchanged: the resulting state
  differs from the previous one in the log only.
\<close>

theorem close_rejected:
  "vmnet_if s = None \<or> d \<noteq> fst (read_socket s) \<Longrightarrow>
     \<exists>s'. macos_vmnet_close e d s = Some (- 1, s') \<and>
          fw_calls s' = fw_calls s \<and> s'\<lparr> log := log s \<rparr> = s"
  by (auto simp: macos_vmnet_close_def logger_def)

theorem close_rejected_witness:
  "vmnet_if init = None \<and>
   (\<exists>s'. macos_vmnet_close ex_close_ok 0 init = Some (- 1, s') \<and>
         fw_calls s' = fw_calls init \<and> s'\<lparr> log := log init \<rparr> = init) \<and>
   5 \<noteq> fst (read_socket ex_running) \<and>
   (\<exists>s'. macos_vmnet_close ex_close_ok 5 ex_running = Some (- 1, s') \<and>
         fw_calls s' = fw_calls ex_running \<and> s'\<lparr> log := log ex_running \<rparr> = ex_running)"
proof -
  have a: "vmnet_if init = None"
    by (simp add: init_def)
  have b: "5 \<noteq> fst (read_socket ex_running)"
    by (simp add: ex_running_eq)
  from a have a': "vmnet_if init = None \<or> 0 \<noteq> fst (read_socket init)" ..
  from b have b': "vmnet_if ex_running = None \<or> 5 \<noteq> fst (read_socket ex_running)" ..
  from close_rejected [OF a', of ex_close_ok] close_rejected [OF b', of ex_close_ok] a b
  show ?thesis by blast
qed

text \<open>
  Claim C8: the interface reference is non-null if and only if the adapter is
  running: null before a successful open, non-null once open succeeds, and null again
  after a successful close.

  The code never resets \<open>vmnet_if\<close>. In the example open succeeds and stores the
  reference 1, close of the returned descriptor returns 0, and the reference is still
  1 afterwards.
\<close>

theorem handle_after_close:
  "macos_vmnet_open ex_open_ok init = Some (3, ex_running) \<and>
   macos_vmnet_close ex_close_ok 3 ex_running = Some (0, ex_closed) \<and>
   vmnet_if ex_closed = Some 1"
  by (simp add: ex_closed_eq ex_running_eq macos_vmnet_open_def macos_vmnet_close_def
      ex_open_ok_def ex_close_ok_def init_def start_handler_def Let_def prims)

subsection \<open>The ingress event handler\<close>

text \<open>
  Claim C7: for every invocation of the ingress event handler: if the interface
  status is not success, the handler returns at once without calling the framework's
  read-packet operation (the state is unchanged); if read-packet returns a non-success
  status, that status is recorded and no datagram is written; if read-packet returns
  success with one packet of size S, where S is above 0 and at most
  \<open>max_packet_size\<close>, exactly one datagram of exactly S bytes, taken from the read
  buffer, is written to the internal end of the socket pair; if read-packet returns
  success with zero packets, nothing is written.

  A returned packet is a nonzero count together with a descriptor whose buffer count
  the framework has left nonzero; these are the two values line 138 tests. Writing a
  datagram is one call of \<open>writev\<close> on \<open>read_socket[1]\<close>; the call is recorded
  with the result the kernel gives it.
\<close>

theorem read_event_cases:
  "(if_status s \<noteq> VMNET_SUCCESS \<longrightarrow> macos_vmnet_read e s = s) \<and>
   (if_status s = VMNET_SUCCESS \<and> read_status e \<noteq> VMNET_SUCCESS \<longrightarrow>
      if_status (macos_vmnet_read e s) = read_status e \<and>
      writev_calls (macos_vmnet_read e s) = writev_calls s) \<and>
   (if_status s = VMNET_SUCCESS \<and> read_status e = VMNET_SUCCESS \<and> read_count e \<noteq> 0 \<and>
    read_iovcnt e \<noteq> 0 \<and> read_pkt_size e = S \<and> 0 < S \<and> S \<le> max_packet_size s \<longrightarrow>
      writev_calls (macos_vmnet_read e s) =
        writev_calls s @ [(snd (read_socket s),
                           \<lparr> iov_base = iov_base (read_iov_in s), iov_len = S \<rparr>,
                           writev_res e)]) \<and>
   (if_status s = VMNET_SUCCESS \<and> read_status e = VMNET_SUCCESS \<and> read_count e = 0 \<longrightarrow>
      writev_calls (macos_vmnet_read e s) = writev_calls s)"
  by (simp add: macos_vmnet_read_def Let_def prims)

theorem read_event_cases_witness:
  "macos_vmnet_read ex_read_frame init = init \<and>
   if_status (macos_vmnet_read ex_read_fail ex_running) = VMNET_BUFFER_EXHAUSTED \<and>
   writev_calls (macos_vmnet_read ex_read_fail ex_running) = [] \<and>
   writev_calls (macos_vmnet_read ex_read_frame ex_running) =
     [(4, \<lparr> iov_base = Some 100, iov_len = 3 \<rparr>, 3)] \<and>
   writev_calls (macos_vmnet_read ex_read_empty ex_running) = []"
proof -
  have i: "if_status init \<noteq> VMNET_SUCCESS"
    by (simp add: init_def)
  have r: "if_status ex_running = VMNET_SUCCESS" "max_packet_size ex_running = 1500"
    "writev_calls ex_running = []" "read_socket ex_running = (3, 4)"
    "read_iov_in ex_running = \<lparr> iov_base = Some 100, iov_len = 1500 \<rparr>"
    by (simp_all add: ex_running_eq)
  from read_event_cases [of init ex_read_frame 3] i
  have c1: "macos_vmnet_read ex_read_frame init = init" by simp
  from read_event_cases [of ex_running ex_read_fail 3] r
  have c2: "if_status (macos_vmnet_read ex_read_fail ex_running) = VMNET_BUFFER_EXHAUSTED \<and>
            writev_calls (macos_vmnet_read ex_read_fail ex_running) = []"
    by (simp add: ex_read_fail_def)
  from read_event_cases [of ex_running ex_read_frame 3] r
  have c3: "writev_calls (macos_vmnet_read ex_read_frame ex_running) =
              [(4, \<lparr> iov_base = Some 100, iov_len = 3 \<rparr>, 3)]"
    by (simp add: ex_read_frame_def)
  from read_event_cases [of ex_running ex_read_empty 3] r
  have c4: "writev_calls (macos_vmnet_read ex_read_empty ex_running) = []"
    by (simp add: ex_read_empty_def)
  from c1 c2 c3 c4 show ?thesis by simp
qed

end
